theory Spec2Isabelle
  imports Complex_Main
begin

section \<open>Data model\<close>

text \<open>
  The rows of the three Prisma tables the server actions touch. Row ids are modelled
  as natural numbers; \<open>id\<close> is the primary key of its table. Columns of type
  Decimal (\<open>balance\<close>, \<open>amount\<close>) hold exact rationals. Only the columns that
  the actions read or write are kept.
\<close>

datatype transaction_type = INCOME | EXPENSE

record user =
  user_id :: nat
  clerkUserId :: string

record account =
  acc_id :: nat
  acc_userId :: nat
  acc_name :: string
  acc_type :: string
  balance :: rat
  isDefault :: bool

record transaction =
  txn_id :: nat
  accountId :: nat
  txn_userId :: nat
  txn_type :: transaction_type
  amount :: rat
  date :: int

record store =
  users :: "user list"
  accounts :: "account list"
  transactions :: "transaction list"

text \<open>
  The uniform result objects \<open>{success: true, data}\<close> and
  \<open>{success: false, error}\<close>.
\<close>

datatype 'a result = Success 'a | Failure string

section \<open>JavaScript numbers and \<open>parseFloat\<close>\<close>

text \<open>
  A JavaScript number as far as \<open>createAccount\<close> looks at it: not-a-number, an
  infinity, or a finite value. Finite values are kept exact: rounding to binary64 is
  not modelled.
\<close>

datatype number = NaN | PosInfinity | NegInfinity | Finite rat

definition isNaN :: "number \<Rightarrow> bool" where
  "isNaN x = (x = NaN)"

text \<open>The comparison \<open>x < 0\<close> of JavaScript; it is false for NaN.\<close>

definition lessZero :: "number \<Rightarrow> bool" where
  "lessZero x = (case x of NaN \<Rightarrow> False | PosInfinity \<Rightarrow> False
                  | NegInfinity \<Rightarrow> True | Finite r \<Rightarrow> r < 0)"

definition isWhiteSpace :: "char \<Rightarrow> bool" where
  "isWhiteSpace c = (of_char c \<in> set [9, 10, 11, 12, 13, 32 :: nat])"

definition isDigit :: "char \<Rightarrow> bool" where
  "isDigit c = (48 \<le> (of_char c :: nat) \<and> (of_char c :: nat) \<le> 57)"

definition digitsValue :: "string \<Rightarrow> nat" where
  "digitsValue ds = foldl (\<lambda>n c. 10 * n + (of_char c - 48)) 0 ds"

text \<open>
  The exponent part after the mantissa: \<open>e\<close> or \<open>E\<close>, an optional sign and at
  least one digit; anything else is not part of the literal and counts as exponent 0.
  The result is the factor the mantissa is multiplied by.
\<close>

definition exponentFactor :: "string \<Rightarrow> rat" where
  "exponentFactor r =
     (case r of
        [] \<Rightarrow> 1
      | c # r1 \<Rightarrow>
          if c = CHR ''e'' \<or> c = CHR ''E'' then
            (let neg = (r1 \<noteq> [] \<and> hd r1 = CHR ''-'');
                 r2 = (if r1 \<noteq> [] \<and> (hd r1 = CHR ''-'' \<or> hd r1 = CHR ''+'') then tl r1 else r1);
                 ds = takeWhile isDigit r2
             in if ds = [] then 1
                else if neg then 1 / 10 ^ digitsValue ds
                else 10 ^ digitsValue ds)
          else 1)"

text \<open>
  \<open>parseFloat\<close>: leading white space (of the ASCII range) is skipped, then the
  longest prefix that is a decimal literal (optional sign, \<open>Infinity\<close> or digits
  with an optional fraction and exponent) is read; with no such prefix the result is
  NaN.
\<close>

definition parseFloat :: "string \<Rightarrow> number" where
  "parseFloat s =
     (let t = dropWhile isWhiteSpace s;
          neg = (t \<noteq> [] \<and> hd t = CHR ''-'');
          u = (if t \<noteq> [] \<and> (hd t = CHR ''-'' \<or> hd t = CHR ''+'') then tl t else t)
      in if take 8 u = ''Infinity'' then (if neg then NegInfinity else PosInfinity)
         else
           (let ip = takeWhile isDigit u;
                r1 = dropWhile isDigit u;
                hasDot = (r1 \<noteq> [] \<and> hd r1 = CHR ''.'');
                fp = (if hasDot then takeWhile isDigit (tl r1) else []);
                r2 = (if hasDot then dropWhile isDigit (tl r1) else r1)
            in if ip = [] \<and> fp = [] then NaN
               else
                 (let m = of_nat (digitsValue (ip @ fp)) / 10 ^ length fp * exponentFactor r2
                  in Finite (if neg then - m else m))))"

section \<open>The database client\<close>

text \<open>
  \<open>auth()\<close> yields the Clerk user id of the session or nothing; the actions test it
  with \<open>!userId\<close>, which also holds for the empty string.
\<close>

definition truthy :: "string option \<Rightarrow> string option" where
  "truthy userId = (case userId of None \<Rightarrow> None | Some s \<Rightarrow> if s = [] then None else Some s)"

definition user_findUnique :: "store \<Rightarrow> string \<Rightarrow> user option" where
  "user_findUnique st cid = find (\<lambda>u. clerkUserId u = cid) (users st)"

text \<open>
  \<open>db.account.updateMany({where: {userId, isDefault: true}, data: {isDefault: false}})\<close>
\<close>

definition account_clearDefaults :: "nat \<Rightarrow> store \<Rightarrow> store" where
  "account_clearDefaults uid st =
     st\<lparr>accounts := map (\<lambda>a. if acc_userId a = uid \<and> isDefault a then a\<lparr>isDefault := False\<rparr> else a)
                        (accounts st)\<rparr>"

text \<open>
  An update through a unique \<open>where\<close>: the first row that matches is rewritten and
  returned; with no such row Prisma throws.
\<close>

fun update_first :: "('a \<Rightarrow> bool) \<Rightarrow> ('a \<Rightarrow> 'a) \<Rightarrow> 'a list \<Rightarrow> ('a \<times> 'a list) option" where
  "update_first P f [] = None"
| "update_first P f (x # xs) =
     (if P x then Some (f x, f x # xs)
      else map_option (\<lambda>(y, ys). (y, x # ys)) (update_first P f xs))"

definition record_not_found :: string where
  "record_not_found = ''Record to update not found.''"

text \<open>The id the database gives a new account row: one no row of the table has.\<close>

definition fresh_id :: "account list \<Rightarrow> nat" where
  "fresh_id as = Suc (foldr max (map acc_id as) 0)"

record account_data =
  d_name :: string
  d_type :: string
  d_balance :: string
  d_isDefault :: bool

text \<open>
  \<open>db.account.create({data: {...data, balance, userId, isDefault}})\<close>. A Decimal
  column holds finite values only: the insertion of an infinity throws.
\<close>

definition account_create ::
  "account_data \<Rightarrow> number \<Rightarrow> nat \<Rightarrow> bool \<Rightarrow> store \<Rightarrow> string + account \<times> store" where
  "account_create data bal uid dflt st =
     (case bal of
        Finite r \<Rightarrow>
          (let a = \<lparr>acc_id = fresh_id (accounts st), acc_userId = uid, acc_name = d_name data,
                     acc_type = d_type data, balance = r, isDefault = dflt\<rparr>
           in Inr (a, st\<lparr>accounts := accounts st @ [a]\<rparr>))
      | _ \<Rightarrow> Inl ''Invalid value for a Decimal column'')"

section \<open>Serialisation\<close>

text \<open>\<open>Decimal.toNumber()\<close>; the value is kept exact.\<close>

definition toNumber :: "rat \<Rightarrow> rat" where
  "toNumber d = d"

text \<open>\<open>serializeDecimal\<close> of the account actions, on an account and on a transaction.\<close>

definition serializeDecimal_account :: "account \<Rightarrow> account" where
  "serializeDecimal_account obj = obj\<lparr>balance := toNumber (balance obj)\<rparr>"

definition serializeDecimal_transaction :: "transaction \<Rightarrow> transaction" where
  "serializeDecimal_transaction obj = obj\<lparr>amount := toNumber (amount obj)\<rparr>"

text \<open>
  \<open>serializeTransaction\<close> of the dashboard actions applied to an account row: the
  row's fields, with \<open>balance\<close> and \<open>amount\<close> overwritten. The row's balance is a
  Decimal object, which is truthy whatever its value; an account row has no
  \<open>amount\<close>, so the first copy yields \<open>undefined\<close> (\<open>None\<close>) there and the second
  copy yields 0.
\<close>

record serialized =
  s_id :: nat
  s_userId :: nat
  s_name :: string
  s_type :: string
  s_isDefault :: bool
  s_balance :: "rat option"
  s_amount :: "rat option"

definition serializeTransaction1 :: "account \<Rightarrow> serialized" where
  "serializeTransaction1 obj =
     \<lparr>s_id = acc_id obj, s_userId = acc_userId obj, s_name = acc_name obj, s_type = acc_type obj,
      s_isDefault = isDefault obj, s_balance = Some (toNumber (balance obj)), s_amount = None\<rparr>"

definition serializeTransaction2 :: "account \<Rightarrow> serialized" where
  "serializeTransaction2 obj =
     \<lparr>s_id = acc_id obj, s_userId = acc_userId obj, s_name = acc_name obj, s_type = acc_type obj,
      s_isDefault = isDefault obj, s_balance = Some (toNumber (balance obj)), s_amount = Some 0\<rparr>"

section \<open>createAccount\<close>

text \<open>The decision of the Arcjet guard (\<open>aj.protect\<close>).\<close>

datatype decision = Allowed | DeniedRateLimit | Denied

text \<open>
  The first copy of \<open>createAccount\<close> (no connection management). The arguments are
  the session's user id, the guard's decision, the form data and the store; the result
  is the returned object and the store the call leaves behind. The two writes are
  separate statements: when the insertion throws, the cleared defaults stay cleared.
\<close>

definition createAccount1 ::
  "string option \<Rightarrow> decision \<Rightarrow> account_data \<Rightarrow> store \<Rightarrow> serialized result \<times> store" where
  "createAccount1 userId decision data st =
     (case truthy userId of
        None \<Rightarrow> (Failure ''Unauthorized'', st)
      | Some cid \<Rightarrow>
          (case decision of
             DeniedRateLimit \<Rightarrow> (Failure ''Too many requests. Try again later.'', st)
           | Denied \<Rightarrow> (Failure ''Request blocked'', st)
           | Allowed \<Rightarrow>
               (case user_findUnique st cid of
                  None \<Rightarrow> (Failure ''User not found'', st)
                | Some user \<Rightarrow>
                    (let balanceFloat = parseFloat (d_balance data) in
                     if isNaN balanceFloat then (Failure ''Invalid balance amount'', st)
                     else
                       (let existingAccounts = filter (\<lambda>a. acc_userId a = user_id user) (accounts st);
                            shouldBeDefault =
                              (if length existingAccounts = 0 then True else d_isDefault data);
                            st1 = (if shouldBeDefault then account_clearDefaults (user_id user) st
                                   else st)
                        in case account_create data balanceFloat (user_id user) shouldBeDefault st1 of
                             Inl e \<Rightarrow> (Failure ''Failed to create account'', st1)
                           | Inr (account, st2) \<Rightarrow>
                               (Success (serializeTransaction1 account), st2))))))"

text \<open>
  The second copy (with \<open>$connect\<close>/\<open>$disconnect\<close>, which are taken to succeed): it
  also refuses a negative balance.
\<close>

definition createAccount2 ::
  "string option \<Rightarrow> decision \<Rightarrow> account_data \<Rightarrow> store \<Rightarrow> serialized result \<times> store" where
  "createAccount2 userId decision data st =
     (case truthy userId of
        None \<Rightarrow> (Failure ''Unauthorized'', st)
      | Some cid \<Rightarrow>
          (case decision of
             DeniedRateLimit \<Rightarrow> (Failure ''Too many requests. Try again later.'', st)
           | Denied \<Rightarrow> (Failure ''Request blocked'', st)
           | Allowed \<Rightarrow>
               (case user_findUnique st cid of
                  None \<Rightarrow> (Failure ''User not found'', st)
                | Some user \<Rightarrow>
                    (let balanceFloat = parseFloat (d_balance data) in
                     if isNaN balanceFloat \<or> lessZero balanceFloat
                     then (Failure ''Invalid balance amount'', st)
                     else
                       (let existingAccounts = filter (\<lambda>a. acc_userId a = user_id user) (accounts st);
                            shouldBeDefault =
                              (if length existingAccounts = 0 then True else d_isDefault data);
                            st1 = (if shouldBeDefault then account_clearDefaults (user_id user) st
                                   else st)
                        in case account_create data balanceFloat (user_id user) shouldBeDefault st1 of
                             Inl e \<Rightarrow> (Failure ''Failed to create account'', st1)
                           | Inr (account, st2) \<Rightarrow>
                               (Success (serializeTransaction2 account), st2))))))"

section \<open>getAccountWithTransactions\<close>

text \<open>
  The account with its included relation (\<open>orderBy: {date: "desc"}\<close>; rows of equal
  date keep the table's order) and the relation count.
\<close>

record account_with_transactions =
  awt_account :: account
  awt_count :: nat
  awt_transactions :: "transaction list"

text \<open>
  \<open>db.account.findUnique({where: {id, userId}})\<close>: ownership is part of the
  lookup, there is no fetch followed by a check.
\<close>

definition account_findUnique :: "store \<Rightarrow> nat \<Rightarrow> nat \<Rightarrow> account option" where
  "account_findUnique st aid uid = find (\<lambda>a. acc_id a = aid \<and> acc_userId a = uid) (accounts st)"

definition account_transactions :: "store \<Rightarrow> account \<Rightarrow> transaction list" where
  "account_transactions st a =
     sort_key (\<lambda>t. - date t) (filter (\<lambda>t. accountId t = acc_id a) (transactions st))"

text \<open>
  Every failure (no session, unknown user, a thrown error) and a missing account all
  end in \<open>null\<close>, here \<open>None\<close>.
\<close>

definition getAccountWithTransactions ::
  "string option \<Rightarrow> nat \<Rightarrow> store \<Rightarrow> account_with_transactions option" where
  "getAccountWithTransactions userId aid st =
     (case truthy userId of
        None \<Rightarrow> None
      | Some cid \<Rightarrow>
          (case user_findUnique st cid of
             None \<Rightarrow> None
           | Some user \<Rightarrow>
               (case account_findUnique st aid (user_id user) of
                  None \<Rightarrow> None
                | Some account \<Rightarrow>
                    Some \<lparr>awt_account = serializeDecimal_account account,
                          awt_count = length (account_transactions st account),
                          awt_transactions =
                            map serializeDecimal_transaction (account_transactions st account)\<rparr>)))"

section \<open>bulkDeleteTransactions\<close>

text \<open>The rows \<open>{id: {in: transactionIds}, userId}\<close> selects.\<close>

definition selected :: "nat list \<Rightarrow> nat \<Rightarrow> transaction \<Rightarrow> bool" where
  "selected ids uid t = (txn_id t \<in> set ids \<and> txn_userId t = uid)"

definition transaction_findMany :: "nat list \<Rightarrow> nat \<Rightarrow> store \<Rightarrow> transaction list" where
  "transaction_findMany ids uid st = filter (selected ids uid) (transactions st)"

definition transaction_deleteMany :: "nat list \<Rightarrow> nat \<Rightarrow> store \<Rightarrow> store" where
  "transaction_deleteMany ids uid st =
     st\<lparr>transactions := filter (\<lambda>t. \<not> selected ids uid t) (transactions st)\<rparr>"

subsection \<open>JavaScript values in the balance changes\<close>

text \<open>
  The rows \<open>findMany\<close> returns carry their \<open>amount\<close> as a Prisma Decimal object
  (the file imports \<open>Decimal\<close> and tests \<open>obj.amount instanceof Decimal\<close>). A value
  in the computation of the balance changes is such an object, a JavaScript number or
  a string.
\<close>

datatype jsvalue = Dec rat | Num rat | Str string

text \<open>
  Plain decimal notation: a minus sign for a negative value, the digits of the integer
  part, and the digits of the fraction, if there is one, after a point. Both
  \<open>Decimal.prototype.valueOf\<close> and the conversion of a number to a string print a
  value this way; the exponent notation they switch to below \<open>1e-6\<close> and from
  \<open>1e21\<close> on is not modelled.
\<close>

definition digitChar :: "nat \<Rightarrow> char" where
  "digitChar n = char_of (48 + n)"

fun integerDigits :: "nat \<Rightarrow> nat \<Rightarrow> string" where
  "integerDigits 0 n = []"
| "integerDigits (Suc fuel) n =
     (if n < 10 then [digitChar n] else integerDigits fuel (n div 10) @ [digitChar (n mod 10)])"

fun fractionDigits :: "nat \<Rightarrow> rat \<Rightarrow> string" where
  "fractionDigits 0 f = []"
| "fractionDigits (Suc fuel) f =
     (if f = 0 then []
      else digitChar (nat \<lfloor>f * 10\<rfloor>) # fractionDigits fuel (f * 10 - of_int \<lfloor>f * 10\<rfloor>))"

definition decimalNotation :: "rat \<Rightarrow> string" where
  "decimalNotation x =
     (let r = \<bar>x\<bar>; n = nat \<lfloor>r\<rfloor>; f = r - of_nat n
      in (if x < 0 then ''-'' else []) @ integerDigits (Suc n) n @
         (if f = 0 then [] else CHR ''.'' # fractionDigits 40 f))"

text \<open>\<open>Decimal.prototype.valueOf\<close>: a string.\<close>

definition valueOf :: "rat \<Rightarrow> string" where
  "valueOf d = decimalNotation d"

text \<open>The string of a JavaScript number.\<close>

definition numberToString :: "rat \<Rightarrow> string" where
  "numberToString x = decimalNotation x"

text \<open>
  The operator \<open>+\<close>: both operands are made primitive, which turns a Decimal object
  into the string its \<open>valueOf\<close> returns; two numbers are added, and as soon as one
  operand is a string the strings of both are concatenated.
\<close>

definition toPrimitive :: "jsvalue \<Rightarrow> jsvalue" where
  "toPrimitive v = (case v of Dec d \<Rightarrow> Str (valueOf d) | Num x \<Rightarrow> Num x | Str s \<Rightarrow> Str s)"

definition toString :: "jsvalue \<Rightarrow> string" where
  "toString v = (case v of Dec d \<Rightarrow> valueOf d | Num x \<Rightarrow> numberToString x | Str s \<Rightarrow> s)"

definition js_plus :: "jsvalue \<Rightarrow> jsvalue \<Rightarrow> jsvalue" where
  "js_plus a b =
     (case (toPrimitive a, toPrimitive b) of
        (Num x, Num y) \<Rightarrow> Num (x + y)
      | (p, q) \<Rightarrow> Str (toString p @ toString q))"

text \<open>\<open>v || 0\<close> for an entry of the accumulator: the number 0 and the empty string are falsy.\<close>

definition or_zero :: "jsvalue \<Rightarrow> jsvalue" where
  "or_zero v = (if v = Num 0 \<or> v = Str [] then Num 0 else v)"

text \<open>
  The change of one transaction: \<open>transaction.amount\<close>, the Decimal object itself, for
  an EXPENSE and \<open>-transaction.amount\<close>, a number, otherwise (the unary minus
  converts the amount to a number; the value is kept exact).
\<close>

definition change :: "transaction \<Rightarrow> jsvalue" where
  "change t = (if txn_type t = EXPENSE then Dec (amount t) else Num (- toNumber (amount t)))"

text \<open>
  \<open>acc[k] = (acc[k] || 0) + change\<close> on an object whose keys keep their insertion
  order.
\<close>

fun add_change :: "(nat \<times> jsvalue) list \<Rightarrow> nat \<Rightarrow> jsvalue \<Rightarrow> (nat \<times> jsvalue) list" where
  "add_change [] k c = [(k, js_plus (Num 0) c)]"
| "add_change ((k', v) # acc) k c =
     (if k' = k then (k', js_plus (or_zero v) c) # acc else (k', v) # add_change acc k c)"

definition accountBalanceChanges :: "transaction list \<Rightarrow> (nat \<times> jsvalue) list" where
  "accountBalanceChanges ts = foldl (\<lambda>acc t. add_change acc (accountId t) (change t)) [] ts"

text \<open>
  What Prisma reads as the \<open>increment\<close> of a Decimal column: a number as it is, a
  string when it is a decimal literal (optional sign, digits, optional fraction) and
  nothing otherwise.
\<close>

definition decimalOfString :: "string \<Rightarrow> rat option" where
  "decimalOfString s =
     (let neg = (s \<noteq> [] \<and> hd s = CHR ''-'');
          u = (if s \<noteq> [] \<and> (hd s = CHR ''-'' \<or> hd s = CHR ''+'') then tl s else s);
          ip = takeWhile isDigit u;
          r1 = dropWhile isDigit u;
          hasDot = (r1 \<noteq> [] \<and> hd r1 = CHR ''.'');
          fp = (if hasDot then takeWhile isDigit (tl r1) else []);
          r2 = (if hasDot then dropWhile isDigit (tl r1) else r1)
      in if (ip = [] \<and> fp = []) \<or> r2 \<noteq> [] then None
         else (let m = of_nat (digitsValue (ip @ fp)) / 10 ^ length fp
               in Some (if neg then - m else m)))"

definition increment_of :: "jsvalue \<Rightarrow> rat option" where
  "increment_of v = (case v of Dec d \<Rightarrow> Some d | Num x \<Rightarrow> Some x | Str s \<Rightarrow> decimalOfString s)"

definition invalid_decimal :: string where
  "invalid_decimal = ''Invalid value for a Decimal increment.''"

text \<open>
  The loop of \<open>tx.account.update({where: {id}, data: {balance: {increment}}})\<close>;
  an increment that is no decimal, and an id without a row, make the update throw.
\<close>

fun increment_balances :: "(nat \<times> jsvalue) list \<Rightarrow> store \<Rightarrow> string + store" where
  "increment_balances [] st = Inr st"
| "increment_balances ((aid, balanceChange) # rest) st =
     (case increment_of balanceChange of
        None \<Rightarrow> Inl invalid_decimal
      | Some r \<Rightarrow>
          (case update_first (\<lambda>a. acc_id a = aid) (\<lambda>a. a\<lparr>balance := balance a + r\<rparr>)
                  (accounts st) of
             None \<Rightarrow> Inl record_not_found
           | Some (a, as) \<Rightarrow> increment_balances rest (st\<lparr>accounts := as\<rparr>)))"

text \<open>
  The deletion and the balance updates run inside \<open>db.$transaction\<close>: when the body
  throws, the store is the one before the call.
\<close>

definition bulkDeleteTransactions ::
  "string option \<Rightarrow> nat list \<Rightarrow> store \<Rightarrow> unit result \<times> store" where
  "bulkDeleteTransactions userId transactionIds st =
     (case truthy userId of
        None \<Rightarrow> (Failure ''Unauthorized'', st)
      | Some cid \<Rightarrow>
          (case user_findUnique st cid of
             None \<Rightarrow> (Failure ''User not found'', st)
           | Some user \<Rightarrow>
               (let txs = transaction_findMany transactionIds (user_id user) st in
                if length txs = 0 then (Failure ''No transactions found to delete'', st)
                else
                  (case increment_balances (accountBalanceChanges txs)
                          (transaction_deleteMany transactionIds (user_id user) st) of
                     Inl e \<Rightarrow> (Failure e, st)
                   | Inr st' \<Rightarrow> (Success (), st')))))"

section \<open>updateDefaultAccount\<close>

text \<open>
  The two writes are two statements on \<open>db\<close>, outside any \<open>$transaction\<close>: when the
  second one throws, the first one has already been applied.
\<close>

definition updateDefaultAccount ::
  "string option \<Rightarrow> nat \<Rightarrow> store \<Rightarrow> account result \<times> store" where
  "updateDefaultAccount userId aid st =
     (case truthy userId of
        None \<Rightarrow> (Failure ''Unauthorized'', st)
      | Some cid \<Rightarrow>
          (case user_findUnique st cid of
             None \<Rightarrow> (Failure ''User not found'', st)
           | Some user \<Rightarrow>
               (let st1 = account_clearDefaults (user_id user) st in
                case update_first (\<lambda>a. acc_id a = aid \<and> acc_userId a = user_id user)
                       (\<lambda>a. a\<lparr>isDefault := True\<rparr>) (accounts st1) of
                  None \<Rightarrow> (Failure record_not_found, st1)
                | Some (account, as) \<Rightarrow>
                    (Success (serializeDecimal_account account), st1\<lparr>accounts := as\<rparr>))))"

section \<open>Properties of stores\<close>

text \<open>The user a session resolves to: \<open>auth()\<close> followed by \<open>db.user.findUnique\<close>.\<close>

definition caller :: "string option \<Rightarrow> store \<Rightarrow> user option" where
  "caller userId st = (case truthy userId of None \<Rightarrow> None | Some cid \<Rightarrow> user_findUnique st cid)"

definition accounts_of :: "nat \<Rightarrow> store \<Rightarrow> account list" where
  "accounts_of uid st = filter (\<lambda>a. acc_userId a = uid) (accounts st)"

definition defaults_of :: "nat \<Rightarrow> store \<Rightarrow> account list" where
  "defaults_of uid st = filter (\<lambda>a. acc_userId a = uid \<and> isDefault a) (accounts st)"

text \<open>
  Invariant 1 of the data model: a user with accounts has exactly one default account,
  a user without accounts has none.
\<close>

definition default_singleton :: "nat \<Rightarrow> store \<Rightarrow> bool" where
  "default_singleton uid st =
     (length (defaults_of uid st) = (if accounts_of uid st = [] then 0 else 1))"





text \<open>
  The constraints the database keeps: the account ids are distinct (primary key) and
  every transaction references an account row (foreign key).
\<close>

definition wf_store :: "store \<Rightarrow> bool" where
  "wf_store st =
     (distinct (map acc_id (accounts st)) \<and>
      list_all (\<lambda>t. accountId t \<in> set (map acc_id (accounts st))) (transactions st))"

text \<open>
  The balance change that undoes a transaction, as a number: \<open>+amount\<close> for an
  EXPENSE and \<open>-amount\<close> for an INCOME; and the change a bulk deletion owes an
  account: the sum over the selected transactions that reference it.
\<close>

definition reversal :: "transaction \<Rightarrow> rat" where
  "reversal t = (case txn_type t of EXPENSE \<Rightarrow> amount t | INCOME \<Rightarrow> - amount t)"

definition delta :: "nat list \<Rightarrow> nat \<Rightarrow> store \<Rightarrow> nat \<Rightarrow> rat" where
  "delta ids uid st aid =
     sum_list (map reversal (filter (\<lambda>t. accountId t = aid) (transaction_findMany ids uid st)))"

text \<open>
  A transaction reads back when the balance change the code computes for it alone,
  \<open>0 + change\<close>, is read by the database as its reversal. A bulk deletion is exact
  when the rows it selects reference pairwise different accounts and each of them
  reads back.
\<close>

definition reads_back :: "transaction \<Rightarrow> bool" where
  "reads_back t = (increment_of (js_plus (Num 0) (change t)) = Some (reversal t))"

definition exact_deletion :: "string option \<Rightarrow> nat list \<Rightarrow> store \<Rightarrow> bool" where
  "exact_deletion userId ids st =
     (case caller userId st of
        None \<Rightarrow> True
      | Some user \<Rightarrow>
          distinct (map accountId (transaction_findMany ids (user_id user) st)) \<and>
          list_all reads_back (transaction_findMany ids (user_id user) st))"

subsection \<open>Sequences of calls\<close>

datatype operation =
    CreateAccount1 "string option" decision account_data
  | CreateAccount2 "string option" decision account_data
  | UpdateDefaultAccount "string option" nat
  | BulkDeleteTransactions "string option" "nat list"

fun step :: "store \<Rightarrow> operation \<Rightarrow> store" where
  "step st (CreateAccount1 userId decision data) = snd (createAccount1 userId decision data st)"
| "step st (CreateAccount2 userId decision data) = snd (createAccount2 userId decision data st)"
| "step st (UpdateDefaultAccount userId aid) = snd (updateDefaultAccount userId aid st)"
| "step st (BulkDeleteTransactions userId ids) = snd (bulkDeleteTransactions userId ids st)"

definition run :: "operation list \<Rightarrow> store \<Rightarrow> store" where
  "run ops st = foldl step st ops"

subsection \<open>Example stores\<close>

definition alice :: user where
  "alice = \<lparr>user_id = 1, clerkUserId = ''clerk_alice''\<rparr>"

definition bob :: user where
  "bob = \<lparr>user_id = 2, clerkUserId = ''clerk_bob''\<rparr>"

definition no_accounts :: store where
  "no_accounts = \<lparr>users = [alice, bob], accounts = [], transactions = []\<rparr>"

definition form :: "string \<Rightarrow> bool \<Rightarrow> account_data" where
  "form bal dflt = \<lparr>d_name = ''Main'', d_type = ''CURRENT'', d_balance = bal, d_isDefault = dflt\<rparr>"

text \<open>
  The ledger of the cross-account example: account A (balance 200) with an EXPENSE of
  30 and an INCOME of 50, account B (balance 50) with an EXPENSE of 20, all of Alice.
\<close>

definition account_A :: account where
  "account_A = \<lparr>acc_id = 1, acc_userId = 1, acc_name = ''A'', acc_type = ''CURRENT'',
                 balance = 200, isDefault = True\<rparr>"

definition account_B :: account where
  "account_B = \<lparr>acc_id = 2, acc_userId = 1, acc_name = ''B'', acc_type = ''SAVINGS'',
                 balance = 50, isDefault = False\<rparr>"

definition ledger_transactions :: "transaction list" where
  "ledger_transactions =
     [\<lparr>txn_id = 1, accountId = 1, txn_userId = 1, txn_type = EXPENSE, amount = 30, date = 10\<rparr>,
      \<lparr>txn_id = 2, accountId = 1, txn_userId = 1, txn_type = INCOME, amount = 50, date = 20\<rparr>,
      \<lparr>txn_id = 3, accountId = 2, txn_userId = 1, txn_type = EXPENSE, amount = 20, date = 30\<rparr>]"

definition ledger :: store where
  "ledger = \<lparr>users = [alice, bob], accounts = [account_A, account_B],
             transactions = ledger_transactions\<rparr>"

text \<open>
  The ledger after the two EXPENSE rows 1 and 3 are deleted, and a ledger in which
  account A has two EXPENSE rows.
\<close>

definition ledger_after :: store where
  "ledger_after = \<lparr>users = [alice, bob],
                   accounts = [account_A\<lparr>balance := 230\<rparr>, account_B\<lparr>balance := 70\<rparr>],
                   transactions =
                     [\<lparr>txn_id = 2, accountId = 1, txn_userId = 1, txn_type = INCOME, amount = 50,
                       date = 20\<rparr>]\<rparr>"

definition expenses :: store where
  "expenses = \<lparr>users = [alice, bob], accounts = [account_A],
               transactions =
                 [\<lparr>txn_id = 1, accountId = 1, txn_userId = 1, txn_type = EXPENSE, amount = 30,
                   date = 10\<rparr>,
                  \<lparr>txn_id = 2, accountId = 1, txn_userId = 1, txn_type = EXPENSE, amount = 20,
                   date = 20\<rparr>]\<rparr>"

subsection \<open>What a caller can see\<close>

text \<open>
  The accounts a session owns, and two stores that differ at most in the accounts of
  other users.
\<close>

definition visible :: "string option \<Rightarrow> store \<Rightarrow> account list" where
  "visible userId st =
     (case caller userId st of None \<Rightarrow> [] | Some user \<Rightarrow> accounts_of (user_id user) st)"

definition indistinguishable :: "string option \<Rightarrow> store \<Rightarrow> store \<Rightarrow> bool" where
  "indistinguishable userId st st' =
     (users st = users st' \<and> transactions st = transactions st' \<and>
      visible userId st = visible userId st')"

definition bob_account :: account where
  "bob_account = \<lparr>acc_id = 3, acc_userId = 2, acc_name = ''Bob'', acc_type = ''CURRENT'',
                   balance = 999, isDefault = True\<rparr>"

definition ledger_with_bob :: store where
  "ledger_with_bob = ledger\<lparr>accounts := accounts ledger @ [bob_account]\<rparr>"

subsection \<open>What a successful creation writes\<close>

text \<open>
  The row a successful \<open>createAccount\<close> inserts for the opening balance \<open>r\<close>, and the
  store it leaves: the owner's defaults are cleared first when the new row is the
  default.
\<close>

definition new_account :: "account_data \<Rightarrow> rat \<Rightarrow> nat \<Rightarrow> store \<Rightarrow> account" where
  "new_account data r uid st =
     \<lparr>acc_id = fresh_id (accounts st), acc_userId = uid, acc_name = d_name data,
      acc_type = d_type data, balance = r,
      isDefault = (accounts_of uid st = [] \<or> d_isDefault data)\<rparr>"

definition after_create :: "account_data \<Rightarrow> rat \<Rightarrow> nat \<Rightarrow> store \<Rightarrow> store" where
  "after_create data r uid st =
     (let st1 = (if accounts_of uid st = [] \<or> d_isDefault data
                 then account_clearDefaults uid st else st)
      in st1\<lparr>accounts := accounts st1 @ [new_account data r uid st]\<rparr>)"

subsection \<open>What an exact bulk deletion writes\<close>

text \<open>An account row after the increments of a list of numeric balance changes.\<close>

definition credited :: "(nat \<times> rat) list \<Rightarrow> account \<Rightarrow> account" where
  "credited cs a =
     a\<lparr>balance := balance a + (case map_of cs (acc_id a) of None \<Rightarrow> 0 | Some c \<Rightarrow> c)\<rparr>"

text \<open>
  The store a bulk deletion is meant to leave: the selected rows are gone and every
  account has received its \<open>delta\<close> (0 for an account no selected row references).
\<close>

definition after_delete :: "nat list \<Rightarrow> nat \<Rightarrow> store \<Rightarrow> store" where
  "after_delete ids uid st =
     st\<lparr>transactions := filter (\<lambda>t. \<not> selected ids uid t) (transactions st),
        accounts := map (\<lambda>a. a\<lparr>balance := balance a + delta ids uid st (acc_id a)\<rparr>) (accounts st)\<rparr>"

subsection \<open>Balances along a sequence of calls\<close>



subsection \<open>Calls that are atomic\<close>

text \<open>
  A call that returned success, and a sequence of calls each of which returned success
  or left the store as it was.
\<close>

fun succeeded :: "store \<Rightarrow> operation \<Rightarrow> bool" where
  "succeeded st (CreateAccount1 userId decision data) =
     (case fst (createAccount1 userId decision data st) of Success r \<Rightarrow> True | Failure e \<Rightarrow> False)"
| "succeeded st (CreateAccount2 userId decision data) =
     (case fst (createAccount2 userId decision data st) of Success r \<Rightarrow> True | Failure e \<Rightarrow> False)"
| "succeeded st (UpdateDefaultAccount userId aid) =
     (case fst (updateDefaultAccount userId aid st) of Success r \<Rightarrow> True | Failure e \<Rightarrow> False)"
| "succeeded st (BulkDeleteTransactions userId ids) =
     (case fst (bulkDeleteTransactions userId ids st) of Success r \<Rightarrow> True | Failure e \<Rightarrow> False)"

fun all_atomic :: "store \<Rightarrow> operation list \<Rightarrow> bool" where
  "all_atomic st [] = True"
| "all_atomic st (op # ops) = ((succeeded st op \<or> step st op = st) \<and> all_atomic (step st op) ops)"



section \<open>Evaluation and frame lemmas\<close>

lemmas example_defs =
  alice_def bob_def no_accounts_def form_def account_A_def account_B_def
  ledger_transactions_def ledger_def ledger_after_def expenses_def

lemmas parse_defs =
  parseFloat_def isWhiteSpace_def isDigit_def digitsValue_def exponentFactor_def isNaN_def
  lessZero_def

lemmas db_defs =
  truthy_def user_findUnique_def account_clearDefaults_def account_create_def fresh_id_def
  account_findUnique_def account_transactions_def selected_def transaction_findMany_def
  transaction_deleteMany_def change_def accountBalanceChanges_def record_not_found_def
  invalid_decimal_def toPrimitive_def toString_def js_plus_def or_zero_def increment_of_def
  toNumber_def serializeDecimal_account_def serializeDecimal_transaction_def
  serializeTransaction1_def serializeTransaction2_def

text \<open>The notation of the amounts of the examples, and how their strings are read.\<close>

lemma valueOf_30: "valueOf 30 = ''30''"
  by code_simp

lemma valueOf_20: "valueOf 20 = ''20''"
  by code_simp

lemma numberToString_0: "numberToString 0 = ''0''"
  by code_simp

lemma numberToString_minus_50: "numberToString (- 50) = ''-50''"
  by code_simp

lemma decimalOfString_030: "decimalOfString ''030'' = Some 30"
  by (simp add: decimalOfString_def isDigit_def digitsValue_def)

lemma decimalOfString_020: "decimalOfString ''020'' = Some 20"
  by (simp add: decimalOfString_def isDigit_def digitsValue_def)

lemma decimalOfString_030_50: "decimalOfString ''030-50'' = None"
  by (simp add: decimalOfString_def isDigit_def digitsValue_def)

lemma decimalOfString_03020: "decimalOfString ''03020'' = Some 3020"
  by (simp add: decimalOfString_def isDigit_def digitsValue_def)

lemmas notation_examples =
  valueOf_30 valueOf_20 numberToString_0 numberToString_minus_50

lemmas decimal_examples =
  decimalOfString_030 decimalOfString_020 decimalOfString_030_50 decimalOfString_03020

lemma increment_balances_frame:
  "increment_balances cs st = Inr st' \<Longrightarrow>
     users st' = users st \<and> transactions st' = transactions st"
  by (induction cs st rule: increment_balances.induct) (auto split: option.splits)

lemma ledger_deleted:
  "bulkDeleteTransactions (Some ''clerk_alice'') [1, 3] ledger = (Success (), ledger_after)"
  by (simp add: bulkDeleteTransactions_def example_defs db_defs notation_examples
      decimal_examples)

section \<open>Reading an account\<close>

lemma find_filter: "find P (filter Q xs) = find (\<lambda>x. Q x \<and> P x) xs"
  by (induction xs) auto

lemma getAccount_visible:
  "getAccountWithTransactions userId aid st =
     (case find (\<lambda>a. acc_id a = aid) (visible userId st) of
        None \<Rightarrow> None
      | Some account \<Rightarrow>
          Some \<lparr>awt_account = serializeDecimal_account account,
                awt_count = length (account_transactions st account),
                awt_transactions =
                  map serializeDecimal_transaction (account_transactions st account)\<rparr>)"
  by (auto simp: getAccountWithTransactions_def visible_def caller_def account_findUnique_def
       accounts_of_def find_filter conj_commute split: option.splits)

text \<open>
  Claim C9. \<open>getAccountWithTransactions\<close> returns \<open>null\<close> whenever the id is not the
  id of an account the caller owns, whether no such account exists or it belongs to
  another user; and on two stores that differ only in the accounts of other users the
  caller gets the same result.
\<close>

theorem C9_ownership_isolation:
  "(aid \<notin> set (map acc_id (visible userId st)) \<longrightarrow>
      getAccountWithTransactions userId aid st = None) \<and>
   (indistinguishable userId st st' \<longrightarrow>
      getAccountWithTransactions userId aid st = getAccountWithTransactions userId aid st')"
proof (intro conjI impI)
  assume "aid \<notin> set (map acc_id (visible userId st))"
  then have "find (\<lambda>a. acc_id a = aid) (visible userId st) = None"
    by (auto simp: find_None_iff)
  then show "getAccountWithTransactions userId aid st = None"
    by (simp add: getAccount_visible)
next
  assume "indistinguishable userId st st'"
  then have "visible userId st = visible userId st'" "transactions st = transactions st'"
    by (simp_all add: indistinguishable_def)
  then show "getAccountWithTransactions userId aid st = getAccountWithTransactions userId aid st'"
    by (simp add: getAccount_visible account_transactions_def split: option.splits)
qed

theorem C9_ownership_isolation_witness:
  "indistinguishable (Some ''clerk_alice'') ledger ledger_with_bob \<and>
   3 \<notin> set (map acc_id (visible (Some ''clerk_alice'') ledger_with_bob)) \<and>
   4 \<notin> set (map acc_id (visible (Some ''clerk_alice'') ledger_with_bob)) \<and>
   getAccountWithTransactions (Some ''clerk_alice'') 3 ledger_with_bob = None \<and>
   getAccountWithTransactions (Some ''clerk_alice'') 4 ledger_with_bob = None \<and>
   getAccountWithTransactions (Some ''clerk_bob'') 3 ledger_with_bob \<noteq> None \<and>
   getAccountWithTransactions (Some ''clerk_alice'') 1 ledger =
     getAccountWithTransactions (Some ''clerk_alice'') 1 ledger_with_bob"
proof -
  have v: "visible (Some ''clerk_alice'') ledger_with_bob = [account_A, account_B]"
    "visible (Some ''clerk_alice'') ledger = [account_A, account_B]"
    by (simp_all add: visible_def caller_def accounts_of_def ledger_with_bob_def bob_account_def
         example_defs db_defs)
  have i: "indistinguishable (Some ''clerk_alice'') ledger ledger_with_bob"
    by (simp add: indistinguishable_def v) (simp add: ledger_with_bob_def)
  have n3: "3 \<notin> set (map acc_id (visible (Some ''clerk_alice'') ledger_with_bob))"
    and n4: "4 \<notin> set (map acc_id (visible (Some ''clerk_alice'') ledger_with_bob))"
    by (simp_all add: v) (simp_all add: example_defs)
  have b: "getAccountWithTransactions (Some ''clerk_bob'') 3 ledger_with_bob \<noteq> None"
    by (simp add: getAccountWithTransactions_def ledger_with_bob_def bob_account_def
         example_defs db_defs)
  from C9_ownership_isolation [of 3 "Some ''clerk_alice''" ledger_with_bob ledger_with_bob]
    C9_ownership_isolation [of 4 "Some ''clerk_alice''" ledger_with_bob ledger_with_bob]
    C9_ownership_isolation [of 1 "Some ''clerk_alice''" ledger ledger_with_bob]
    i n3 n4 b
  show ?thesis by blast
qed

section \<open>Account creation\<close>

lemma fresh_id_clearDefaults [simp]:
  "fresh_id (accounts (account_clearDefaults uid st)) = fresh_id (accounts st)"
proof -
  have "map acc_id (accounts (account_clearDefaults uid st)) = map acc_id (accounts st)"
    by (simp add: account_clearDefaults_def comp_def)
  then show ?thesis by (simp add: fresh_id_def)
qed

lemma createAccount1_Success:
  assumes "createAccount1 userId decision data st = (Success created, st')"
  shows "\<exists>user r. caller userId st = Some user \<and> decision = Allowed \<and>
           parseFloat (d_balance data) = Finite r \<and>
           created = serializeTransaction1 (new_account data r (user_id user) st) \<and>
           st' = after_create data r (user_id user) st"
  using assms
  by (auto simp: createAccount1_def caller_def Let_def account_create_def new_account_def
      after_create_def accounts_of_def isNaN_def
      split: option.splits decision.splits if_splits number.splits)

lemma createAccount2_Success:
  assumes "createAccount2 userId decision data st = (Success created, st')"
  shows "\<exists>user r. caller userId st = Some user \<and> decision = Allowed \<and>
           parseFloat (d_balance data) = Finite r \<and> 0 \<le> r \<and>
           created = serializeTransaction2 (new_account data r (user_id user) st) \<and>
           st' = after_create data r (user_id user) st"
  using assms
  by (auto simp: createAccount2_def caller_def Let_def account_create_def new_account_def
      after_create_def accounts_of_def isNaN_def lessZero_def
      split: option.splits decision.splits if_splits number.splits)

text \<open>
  Claim C8. When either copy of \<open>createAccount\<close> succeeds for a caller, the created
  account is the default if the caller had no account before the call, whatever was
  requested, and otherwise its default flag is the requested one; the row appended to
  the table is the returned account and carries that flag.
\<close>

theorem C8_bootstrap_default:
  assumes "createAccount1 userId decision data st = (Success created, st') \<or>
           createAccount2 userId decision data st = (Success created, st')"
    and "caller userId st = Some user"
  shows "s_isDefault created =
           (if accounts_of (user_id user) st = [] then True else d_isDefault data) \<and>
         length (accounts st') = Suc (length (accounts st)) \<and>
         acc_id (last (accounts st')) = s_id created \<and>
         acc_userId (last (accounts st')) = user_id user \<and>
         isDefault (last (accounts st')) = s_isDefault created"
proof -
  from assms(1) obtain user' r where u: "caller userId st = Some user'"
    and c: "created = serializeTransaction1 (new_account data r (user_id user') st) \<or>
            created = serializeTransaction2 (new_account data r (user_id user') st)"
    and s: "st' = after_create data r (user_id user') st"
    using createAccount1_Success createAccount2_Success by blast
  from u assms(2) have "user' = user" by simp
  with c s show ?thesis
    by (auto simp: serializeTransaction1_def serializeTransaction2_def new_account_def
        after_create_def Let_def account_clearDefaults_def)
qed

theorem C8_bootstrap_default_witness:
  "caller (Some ''clerk_alice'') no_accounts = Some alice \<and>
   accounts_of (user_id alice) no_accounts = [] \<and>
   (\<exists>created st'. createAccount1 (Some ''clerk_alice'') Allowed (form ''100'' False) no_accounts =
        (Success created, st') \<and>
      s_isDefault created \<and> isDefault (last (accounts st'))) \<and>
   caller (Some ''clerk_alice'') ledger = Some alice \<and>
   accounts_of (user_id alice) ledger \<noteq> [] \<and>
   (\<exists>created st'. createAccount2 (Some ''clerk_alice'') Allowed (form ''100'' False) ledger =
        (Success created, st') \<and>
      \<not> s_isDefault created \<and> \<not> isDefault (last (accounts st')))"
proof -
  have c: "caller (Some ''clerk_alice'') no_accounts = Some alice"
    and c': "caller (Some ''clerk_alice'') ledger = Some alice"
    by (simp_all add: caller_def example_defs db_defs)
  have e: "accounts_of (user_id alice) no_accounts = []"
    and e': "accounts_of (user_id alice) ledger \<noteq> []"
    by (simp_all add: accounts_of_def example_defs)
  obtain created st' where
    r: "createAccount1 (Some ''clerk_alice'') Allowed (form ''100'' False) no_accounts =
          (Success created, st')"
    by (simp add: createAccount1_def example_defs db_defs parse_defs Let_def)
  obtain created2 st2 where
    r': "createAccount2 (Some ''clerk_alice'') Allowed (form ''100'' False) ledger =
          (Success created2, st2)"
    by (simp add: createAccount2_def example_defs db_defs parse_defs Let_def)
  from C8_bootstrap_default [OF disjI1 [OF r] c] e
  have 1: "s_isDefault created \<and> isDefault (last (accounts st'))" by simp
  from C8_bootstrap_default [OF disjI2 [OF r'] c'] e'
  have 2: "\<not> s_isDefault created2 \<and> \<not> isDefault (last (accounts st2))"
    by (simp add: form_def)
  from c e r 1 c' e' r' 2 show ?thesis by blast
qed

text \<open>
  The copy with connection management refuses every balance that is not a number or
  is negative, and changes nothing; the copy without refuses what is not a number.
\<close>

lemma createAccount2_rejects:
  assumes "caller userId st = Some user" and "decision = Allowed"
    and "isNaN (parseFloat (d_balance data)) \<or> lessZero (parseFloat (d_balance data))"
  shows "createAccount2 userId decision data st = (Failure ''Invalid balance amount'', st)"
  using assms by (auto simp: createAccount2_def caller_def split: option.splits)

lemma createAccount1_rejects:
  assumes "caller userId st = Some user" and "decision = Allowed"
    and "isNaN (parseFloat (d_balance data))"
  shows "createAccount1 userId decision data st = (Failure ''Invalid balance amount'', st)"
  using assms by (auto simp: createAccount1_def caller_def split: option.splits)

text \<open>
  Claim C7 at a negative balance. The string \<open>-5\<close> parses to the number -5. The copy
  without connection management tests \<open>isNaN\<close> only and inserts the account with
  balance -5; the copy with connection management refuses the same input.
\<close>

theorem C7_negative_balance_accepted:
  "parseFloat ''-5'' = Finite (- 5) \<and>
   createAccount1 (Some ''clerk_alice'') Allowed (form ''-5'' False) no_accounts =
     (Success \<lparr>s_id = 1, s_userId = 1, s_name = ''Main'', s_type = ''CURRENT'', s_isDefault = True,
               s_balance = Some (- 5), s_amount = None\<rparr>,
      no_accounts\<lparr>accounts := [\<lparr>acc_id = 1, acc_userId = 1, acc_name = ''Main'',
                                 acc_type = ''CURRENT'', balance = - 5, isDefault = True\<rparr>]\<rparr>) \<and>
   createAccount2 (Some ''clerk_alice'') Allowed (form ''-5'' False) no_accounts =
     (Failure ''Invalid balance amount'', no_accounts)"
  by (simp add: createAccount1_def createAccount2_def example_defs db_defs parse_defs Let_def)

text \<open>
  Claim C10, as stated, fails. For the balance \<open>100\<close> both copies insert the same
  row, but the returned objects differ in \<open>amount\<close>; for the balance \<open>-5\<close> one copy
  succeeds and the other fails.
\<close>

theorem C10_copies_differ:
  "createAccount1 (Some ''clerk_alice'') Allowed (form ''100'' False) no_accounts \<noteq>
   createAccount2 (Some ''clerk_alice'') Allowed (form ''100'' False) no_accounts \<and>
   createAccount1 (Some ''clerk_alice'') Allowed (form ''-5'' False) no_accounts \<noteq>
   createAccount2 (Some ''clerk_alice'') Allowed (form ''-5'' False) no_accounts"
  by (simp add: createAccount1_def createAccount2_def example_defs db_defs parse_defs Let_def)

text \<open>
  Claim C10, amended. When the balance does not parse to a negative number, the two
  copies leave the same store; they return the same failure, or both succeed with
  objects that agree in every field of the account and differ only in \<open>amount\<close>,
  which is \<open>undefined\<close> in the copy without connection management and 0 in the
  other.
\<close>

theorem C10_copies_agree:
  assumes "\<not> lessZero (parseFloat (d_balance data))"
  shows "snd (createAccount1 userId decision data st) = snd (createAccount2 userId decision data st) \<and>
         (case fst (createAccount1 userId decision data st) of
            Failure e \<Rightarrow> fst (createAccount2 userId decision data st) = Failure e
          | Success created \<Rightarrow>
              s_amount created = None \<and>
              fst (createAccount2 userId decision data st) = Success (created\<lparr>s_amount := Some 0\<rparr>))"
  using assms
  by (auto simp: createAccount1_def createAccount2_def Let_def serializeTransaction1_def
      serializeTransaction2_def split: option.splits decision.splits sum.splits)

theorem C10_copies_agree_witness:
  "\<not> lessZero (parseFloat ''100'') \<and>
   snd (createAccount1 (Some ''clerk_alice'') Allowed (form ''100'' False) no_accounts) =
   snd (createAccount2 (Some ''clerk_alice'') Allowed (form ''100'' False) no_accounts) \<and>
   fst (createAccount1 (Some ''clerk_alice'') Allowed (form ''100'' False) no_accounts) =
     Success \<lparr>s_id = 1, s_userId = 1, s_name = ''Main'', s_type = ''CURRENT'', s_isDefault = True,
               s_balance = Some 100, s_amount = None\<rparr> \<and>
   fst (createAccount2 (Some ''clerk_alice'') Allowed (form ''100'' False) no_accounts) =
     Success \<lparr>s_id = 1, s_userId = 1, s_name = ''Main'', s_type = ''CURRENT'', s_isDefault = True,
               s_balance = Some 100, s_amount = Some 0\<rparr>"
proof -
  have p: "\<not> lessZero (parseFloat (d_balance (form ''100'' False)))"
    by (simp add: form_def parse_defs)
  have f: "fst (createAccount1 (Some ''clerk_alice'') Allowed (form ''100'' False) no_accounts) =
     Success \<lparr>s_id = 1, s_userId = 1, s_name = ''Main'', s_type = ''CURRENT'', s_isDefault = True,
               s_balance = Some 100, s_amount = None\<rparr>"
    by (simp add: createAccount1_def example_defs db_defs parse_defs Let_def)
  from C10_copies_agree [OF p, of "Some ''clerk_alice''" Allowed no_accounts] f p
  show ?thesis by (simp add: form_def)
qed

section \<open>Bulk deletion: balances\<close>

lemma update_first_None: "update_first P f xs = None \<longleftrightarrow> (\<forall>x\<in>set xs. \<not> P x)"
  by (induction xs) auto

lemma update_first_Some:
  assumes "update_first P f xs = Some (y, xs')"
    and "distinct (map key xs)" and "\<And>x. P x \<Longrightarrow> key x = k"
  shows "xs' = map (\<lambda>x. if P x then f x else x) xs"
  using assms
proof (induction xs arbitrary: xs')
  case Nil
  then show ?case by simp
next
  case (Cons x xs)
  show ?case
  proof (cases "P x")
    case True
    with Cons.prems have "\<forall>z\<in>set xs. \<not> P z"
      by (metis distinct.simps(2) image_eqI list.simps(9) set_map)
    then have "map (\<lambda>x. if P x then f x else x) xs = xs"
      by (induction xs) auto
    with True Cons.prems(1) show ?thesis by auto
  next
    case False
    with Cons.prems(1) obtain zs where "update_first P f xs = Some (y, zs)" "xs' = x # zs"
      by (auto split: option.splits)
    with Cons.IH [of zs] Cons.prems(2,3) False show ?thesis by auto
  qed
qed

lemma update_first_keys:
  "update_first P f xs = Some (y, xs') \<Longrightarrow> (\<And>x. key (f x) = key x) \<Longrightarrow>
     map key xs' = map key xs"
  by (induction xs arbitrary: xs') (auto split: if_splits)

text \<open>
  When the rows reference pairwise different accounts, every key of the accumulator is
  written once, with \<open>0 + change\<close>.
\<close>

lemma add_change_fresh:
  "k \<notin> set (map fst acc) \<Longrightarrow> add_change acc k c = acc @ [(k, js_plus (Num 0) c)]"
  by (induction acc k c rule: add_change.induct) auto

lemma foldl_add_change:
  assumes "distinct (map accountId ts)" and "set (map fst acc) \<inter> set (map accountId ts) = {}"
  shows "foldl (\<lambda>acc t. add_change acc (accountId t) (change t)) acc ts =
           acc @ map (\<lambda>t. (accountId t, js_plus (Num 0) (change t))) ts"
  using assms
proof (induction ts arbitrary: acc)
  case Nil
  then show ?case by simp
next
  case (Cons t ts)
  from Cons.prems have f: "accountId t \<notin> set (map fst acc)" by auto
  from Cons.prems have "distinct (map accountId ts)"
    and "set (map fst (acc @ [(accountId t, js_plus (Num 0) (change t))])) \<inter>
         set (map accountId ts) = {}"
    by auto
  from Cons.IH [OF this] show ?case
    by (simp add: add_change_fresh [OF f])
qed

lemma accountBalanceChanges_distinct:
  "distinct (map accountId ts) \<Longrightarrow>
     accountBalanceChanges ts = map (\<lambda>t. (accountId t, js_plus (Num 0) (change t))) ts"
  using foldl_add_change [of ts "[]"] by (simp add: accountBalanceChanges_def)

lemma acc_id_credited [simp]: "acc_id (credited cs a) = acc_id a"
  by (simp add: credited_def)

lemma credited_Nil [simp]: "credited [] a = a"
  by (simp add: credited_def)

lemma credited_Cons:
  "aid \<notin> set (map fst rest) \<Longrightarrow>
   credited rest (if acc_id a = aid then a\<lparr>balance := balance a + c\<rparr> else a) =
     credited ((aid, c) # rest) a"
  by (auto simp: credited_def map_of_eq_None_iff [THEN iffD2] split: option.splits)

text \<open>The increments of rows that read back are the increments of their reversals.\<close>

lemma increment_balances_Inr:
  assumes "increment_balances (map (\<lambda>t. (accountId t, js_plus (Num 0) (change t))) ts) st = Inr st'"
    and "list_all reads_back ts"
    and "distinct (map accountId ts)" and "distinct (map acc_id (accounts st))"
  shows "st' = st\<lparr>accounts := map (credited (map (\<lambda>t. (accountId t, reversal t)) ts)) (accounts st)\<rparr>"
  using assms
proof (induction ts arbitrary: st)
  case Nil
  then show ?case by simp
next
  case (Cons t ts)
  from Cons.prems(2) have "reads_back t" and rest: "list_all reads_back ts"
    by simp_all
  then have rb: "increment_of (js_plus (Num 0) (change t)) = Some (reversal t)"
    by (simp add: reads_back_def)
  from Cons.prems(1) rb obtain a as where
    u: "update_first (\<lambda>a. acc_id a = accountId t) (\<lambda>a. a\<lparr>balance := balance a + reversal t\<rparr>)
          (accounts st) = Some (a, as)"
    and r: "increment_balances (map (\<lambda>t. (accountId t, js_plus (Num 0) (change t))) ts)
          (st\<lparr>accounts := as\<rparr>) = Inr st'"
    by (auto split: option.splits)
  from update_first_Some [OF u Cons.prems(4)]
  have as: "as = map (\<lambda>a. if acc_id a = accountId t then a\<lparr>balance := balance a + reversal t\<rparr> else a)
      (accounts st)"
    by simp
  then have ids: "map acc_id as = map acc_id (accounts st)"
    by (simp add: comp_def if_distrib [of acc_id] cong: if_cong)
  from Cons.IH [OF r rest] Cons.prems(3,4) ids
  have "st' = st\<lparr>accounts := map (credited (map (\<lambda>t. (accountId t, reversal t)) ts)) as\<rparr>"
    by simp
  moreover from Cons.prems(3)
  have "accountId t \<notin> set (map fst (map (\<lambda>t. (accountId t, reversal t)) ts))"
    by (simp add: comp_def)
  ultimately show ?case
    by (simp add: as comp_def credited_Cons)
qed

lemma credited_reversals:
  assumes "distinct (map accountId ts)"
  shows "(case map_of (map (\<lambda>t. (accountId t, reversal t)) ts) i of None \<Rightarrow> 0 | Some r \<Rightarrow> r) =
           sum_list (map reversal (filter (\<lambda>t. accountId t = i) ts))"
  using assms
proof (induction ts)
  case Nil
  then show ?case by simp
next
  case (Cons t ts)
  show ?case
  proof (cases "accountId t = i")
    case True
    with Cons.prems have "filter (\<lambda>t. accountId t = i) ts = []"
      by (auto simp: filter_empty_conv image_iff)
    with True show ?thesis by simp
  next
    case False
    with Cons show ?thesis by simp
  qed
qed

lemma bulkDelete_Success:
  assumes "bulkDeleteTransactions userId ids st = (Success (), st')"
    and "distinct (map acc_id (accounts st))"
    and "exact_deletion userId ids st"
  shows "\<exists>user. caller userId st = Some user \<and> st' = after_delete ids (user_id user) st"
proof -
  from assms(1) obtain cid user where c: "truthy userId = Some cid"
    and u: "user_findUnique st cid = Some user"
    and inc: "increment_balances (accountBalanceChanges (transaction_findMany ids (user_id user) st))
               (transaction_deleteMany ids (user_id user) st) = Inr st'"
    by (auto simp: bulkDeleteTransactions_def Let_def split: option.splits if_splits sum.splits)
  let ?txs = "transaction_findMany ids (user_id user) st"
  from c u assms(3) have d: "distinct (map accountId ?txs)" and rb: "list_all reads_back ?txs"
    by (simp_all add: exact_deletion_def caller_def)
  from inc have "increment_balances (map (\<lambda>t. (accountId t, js_plus (Num 0) (change t))) ?txs)
      (transaction_deleteMany ids (user_id user) st) = Inr st'"
    by (simp add: accountBalanceChanges_distinct [OF d])
  from increment_balances_Inr [OF this rb d] assms(2)
  have "st' = after_delete ids (user_id user) st"
    by (simp add: transaction_deleteMany_def after_delete_def credited_def
        credited_reversals [OF d] delta_def)
  with c u show ?thesis by (auto simp: caller_def)
qed


lemma increment_balances_succeeds:
  assumes "\<forall>(k, v)\<in>set cs. increment_of v \<noteq> None \<and> k \<in> set (map acc_id (accounts st))"
  shows "\<exists>st'. increment_balances cs st = Inr st'"
  using assms
proof (induction cs st rule: increment_balances.induct)
  case (1 st)
  then show ?case by simp
next
  case (2 aid c rest st)
  then obtain r where i: "increment_of c = Some r" by auto
  from "2.prems" have "aid \<in> acc_id ` set (accounts st)" by simp
  then obtain a as where
    u: "update_first (\<lambda>a. acc_id a = aid) (\<lambda>a. a\<lparr>balance := balance a + r\<rparr>) (accounts st) =
          Some (a, as)"
    using update_first_None [of "\<lambda>a. acc_id a = aid" _ "accounts st"]
    by (cases "update_first (\<lambda>a. acc_id a = aid) (\<lambda>a. a\<lparr>balance := balance a + r\<rparr>) (accounts st)")
       auto
  have "map acc_id as = map acc_id (accounts st)"
    by (rule update_first_keys [OF u]) simp
  with "2.IH" [OF i u refl] "2.prems" i u show ?case by simp
qed

text \<open>
  Where the bulk deletion does what it is meant to do: on a store that satisfies the
  database constraints, an exact deletion that selects at least one row returns
  success, removes the selected rows and adds its \<open>delta\<close> to every account.
\<close>

lemma bulkDelete_exact:
  assumes "wf_store st" and "caller userId st = Some user"
    and "transaction_findMany ids (user_id user) st \<noteq> []"
    and "exact_deletion userId ids st"
  shows "bulkDeleteTransactions userId ids st = (Success (), after_delete ids (user_id user) st)"
proof -
  let ?txs = "transaction_findMany ids (user_id user) st"
  let ?del = "transaction_deleteMany ids (user_id user) st"
  from assms(1) have d: "distinct (map acc_id (accounts st))"
    and fk: "\<forall>t\<in>set (transactions st). accountId t \<in> set (map acc_id (accounts st))"
    by (simp_all add: wf_store_def list_all_iff)
  from assms(2,4) have da: "distinct (map accountId ?txs)" and rb: "list_all reads_back ?txs"
    by (simp_all add: exact_deletion_def)
  have sub: "set ?txs \<subseteq> set (transactions st)"
    by (auto simp: transaction_findMany_def)
  have "\<forall>(k, v)\<in>set (accountBalanceChanges ?txs).
      increment_of v \<noteq> None \<and> k \<in> set (map acc_id (accounts ?del))"
    unfolding accountBalanceChanges_distinct [OF da]
    using fk rb sub
    by (auto simp: transaction_deleteMany_def list_all_iff reads_back_def)
  from increment_balances_succeeds [OF this] obtain st' where
    inc: "increment_balances (accountBalanceChanges ?txs) ?del = Inr st'" ..
  with assms(2,3) have r: "bulkDeleteTransactions userId ids st = (Success (), st')"
    by (auto simp: bulkDeleteTransactions_def caller_def split: option.splits)
  from bulkDelete_Success [OF r d assms(4)] assms(2) have "st' = after_delete ids (user_id user) st"
    by simp
  with r show ?thesis by simp
qed

text \<open>
  Claim C4 on its own example. Account A has the EXPENSE 30 and the INCOME 50: the
  accumulator for A is \<open>0 + Decimal(30)\<close>, the string \<open>030\<close>, and then
  \<open>"030" + (-50)\<close>, the string \<open>030-50\<close>, which is no decimal, so the update
  throws and the transaction is rolled back: the call returns a failure and the store
  is the one before the call, where the claim has \<open>{success: true}\<close>, A at 180 and B
  at 70. On a ledger in which A has the two EXPENSE rows 30 and 20 the delta is 50,
  the accumulator is the string \<open>03020\<close>, and the call succeeds with A at
  200 + 3020.
\<close>

theorem C4_example_rolled_back:
  "accountBalanceChanges (transaction_findMany [1, 2, 3] (user_id alice) ledger) =
     [(1, Str ''030-50''), (2, Str ''020'')] \<and>
   bulkDeleteTransactions (Some ''clerk_alice'') [1, 2, 3] ledger =
     (Failure invalid_decimal, ledger) \<and>
   delta [1, 2] (user_id alice) expenses 1 = 50 \<and>
   accountBalanceChanges (transaction_findMany [1, 2] (user_id alice) expenses) =
     [(1, Str ''03020'')] \<and>
   bulkDeleteTransactions (Some ''clerk_alice'') [1, 2] expenses =
     (Success (), expenses\<lparr>accounts := [account_A\<lparr>balance := 3220\<rparr>], transactions := []\<rparr>)"
  by (simp add: bulkDeleteTransactions_def delta_def reversal_def example_defs db_defs
      notation_examples decimal_examples)

section \<open>Bulk deletion: empty selections\<close>

text \<open>
  Claim C5. When the session resolves to a user and no requested id selects a
  transaction of that user (an empty list of ids, or ids of rows of other users), the
  call returns \<open>{success: false, error: "No transactions found to delete"}\<close> and the
  store is the one before the call.
\<close>

theorem C5_empty_selection:
  assumes "truthy userId = Some cid"
    and "user_findUnique st cid = Some user"
    and "transaction_findMany transactionIds (user_id user) st = []"
  shows "bulkDeleteTransactions userId transactionIds st =
           (Failure ''No transactions found to delete'', st)"
  using assms by (simp add: bulkDeleteTransactions_def)

theorem C5_empty_selection_witness:
  "transaction_findMany [] (user_id alice) ledger = [] \<and>
   transaction_findMany [1, 2, 3] (user_id bob) ledger = [] \<and>
   bulkDeleteTransactions (Some ''clerk_alice'') [] ledger =
     (Failure ''No transactions found to delete'', ledger) \<and>
   bulkDeleteTransactions (Some ''clerk_bob'') [1, 2, 3] ledger =
     (Failure ''No transactions found to delete'', ledger)"
proof -
  have a: "truthy (Some ''clerk_alice'') = Some ''clerk_alice''"
    and b: "truthy (Some ''clerk_bob'') = Some ''clerk_bob''"
    by (simp_all add: truthy_def)
  have ua: "user_findUnique ledger ''clerk_alice'' = Some alice"
    and ub: "user_findUnique ledger ''clerk_bob'' = Some bob"
    by (simp_all add: example_defs db_defs)
  have ea: "transaction_findMany [] (user_id alice) ledger = []"
    and eb: "transaction_findMany [1, 2, 3] (user_id bob) ledger = []"
    by (simp_all add: example_defs db_defs)
  show ?thesis
    using C5_empty_selection [OF a ua ea] C5_empty_selection [OF b ub eb] ea eb by simp
qed

text \<open>
  Claim C6. When a bulk deletion of the ids \<open>S\<close> has succeeded, the same call on the
  store it left returns the failure result \<open>No transactions found to delete\<close> and
  leaves that store, hence every balance, as it is.
\<close>

theorem C6_idempotent_deletion:
  assumes "bulkDeleteTransactions userId S st = (Success (), st')"
  shows "bulkDeleteTransactions userId S st' =
           (Failure ''No transactions found to delete'', st')"
proof -
  from assms obtain cid user where c: "truthy userId = Some cid"
    and u: "user_findUnique st cid = Some user"
    and inc: "increment_balances (accountBalanceChanges (transaction_findMany S (user_id user) st))
               (transaction_deleteMany S (user_id user) st) = Inr st'"
    by (auto simp: bulkDeleteTransactions_def Let_def split: option.splits if_splits sum.splits)
  from increment_balances_frame [OF inc]
  have us: "users st' = users st"
    and ts: "transactions st' = filter (\<lambda>t. \<not> selected S (user_id user) t) (transactions st)"
    by (simp_all add: transaction_deleteMany_def)
  from u us have u': "user_findUnique st' cid = Some user"
    by (simp add: user_findUnique_def)
  have "transaction_findMany S (user_id user) st' = []"
    by (simp add: transaction_findMany_def ts filter_empty_conv)
  with c u' show ?thesis
    by (simp add: bulkDeleteTransactions_def)
qed

theorem C6_idempotent_deletion_witness:
  "bulkDeleteTransactions (Some ''clerk_alice'') [1, 3] ledger = (Success (), ledger_after) \<and>
   bulkDeleteTransactions (Some ''clerk_alice'') [1, 3] ledger_after =
     (Failure ''No transactions found to delete'', ledger_after)"
  using C6_idempotent_deletion [OF ledger_deleted] ledger_deleted by simp

section \<open>The balance invariant\<close>






















section \<open>The default account\<close>

text \<open>
  Invariant 1 is kept by every call that returns success, hence by every sequence of
  calls in which each call returns success or changes nothing.
\<close>

lemma default_singleton_length:
  "default_singleton u st \<longleftrightarrow>
     length (defaults_of u st) = (if length (accounts_of u st) = 0 then 0 else 1)"
  by (simp add: default_singleton_def)

lemma length_filter_map:
  "(\<And>x. P (c x) = Q x) \<Longrightarrow> length (filter P (map c xs)) = length (filter Q xs)"
  by (induction xs) simp_all

lemma accounts_clearDefaults:
  "accounts (account_clearDefaults uid st) =
     map (\<lambda>a. if acc_userId a = uid \<and> isDefault a then a\<lparr>isDefault := False\<rparr> else a)
       (accounts st)"
  by (simp add: account_clearDefaults_def)

lemma length_defaults_clear:
  "length (defaults_of u (account_clearDefaults uid st)) =
     (if u = uid then 0 else length (defaults_of u st))"
proof (cases "u = uid")
  case True
  have "length (defaults_of u (account_clearDefaults uid st)) =
      length (filter (\<lambda>a. False) (accounts st))"
    unfolding defaults_of_def accounts_clearDefaults
    by (rule length_filter_map) (simp add: True)
  with True show ?thesis by simp
next
  case False
  have "length (defaults_of u (account_clearDefaults uid st)) = length (defaults_of u st)"
    unfolding defaults_of_def accounts_clearDefaults
    by (rule length_filter_map) (use False in auto)
  with False show ?thesis by simp
qed

lemma length_accounts_clear:
  "length (accounts_of u (account_clearDefaults uid st)) = length (accounts_of u st)"
  unfolding accounts_of_def accounts_clearDefaults
  by (rule length_filter_map) simp

lemma length_snoc_account:
  "length (accounts_of u (st\<lparr>accounts := accounts st @ [a]\<rparr>)) =
     length (accounts_of u st) + (if acc_userId a = u then 1 else 0)"
  "length (defaults_of u (st\<lparr>accounts := accounts st @ [a]\<rparr>)) =
     length (defaults_of u st) + (if acc_userId a = u \<and> isDefault a then 1 else 0)"
  by (simp_all add: accounts_of_def defaults_of_def)

lemma default_singleton_after_create:
  assumes "default_singleton u st"
  shows "default_singleton u (after_create data r uid st)"
proof (cases "accounts_of uid st = [] \<or> d_isDefault data")
  case True
  then have "after_create data r uid st =
      (account_clearDefaults uid st)\<lparr>accounts := accounts (account_clearDefaults uid st) @
         [new_account data r uid st]\<rparr>"
    by (simp add: after_create_def Let_def)
  moreover from True have "isDefault (new_account data r uid st)"
    and "acc_userId (new_account data r uid st) = uid"
    by (simp_all add: new_account_def)
  ultimately show ?thesis
    using assms
    by (simp add: default_singleton_length length_snoc_account length_defaults_clear
        length_accounts_clear)
next
  case False
  then have "after_create data r uid st = st\<lparr>accounts := accounts st @ [new_account data r uid st]\<rparr>"
    by (simp add: after_create_def Let_def)
  moreover from False have "\<not> isDefault (new_account data r uid st)"
    and "acc_userId (new_account data r uid st) = uid" and "length (accounts_of uid st) \<noteq> 0"
    by (simp_all add: new_account_def)
  ultimately show ?thesis
    using assms
    by (auto simp: default_singleton_length length_snoc_account)
qed

lemma update_first_split:
  "update_first P f xs = Some (y, xs') \<Longrightarrow>
     \<exists>pre x post. xs = pre @ x # post \<and> P x \<and> xs' = pre @ f x # post"
proof (induction xs arbitrary: xs')
  case Nil
  then show ?case by simp
next
  case (Cons a xs)
  show ?case
  proof (cases "P a")
    case True
    with Cons.prems have "a # xs = [] @ a # xs \<and> P a \<and> xs' = [] @ f a # xs" by auto
    then show ?thesis by blast
  next
    case False
    with Cons.prems obtain zs where z: "update_first P f xs = Some (y, zs)" and "xs' = a # zs"
      by (auto split: option.splits)
    from Cons.IH [OF z] obtain pre x post where "xs = pre @ x # post" "P x" "zs = pre @ f x # post"
      by blast
    with \<open>xs' = a # zs\<close> have "a # xs = (a # pre) @ x # post \<and> P x \<and> xs' = (a # pre) @ f x # post"
      by simp
    then show ?thesis by blast
  qed
qed

lemma default_singleton_updateDefaultAccount:
  assumes "default_singleton u st"
    and "updateDefaultAccount userId aid st = (Success a, st')"
  shows "default_singleton u st'"
proof -
  from assms(2) obtain cid user y as where c: "truthy userId = Some cid"
    and us: "user_findUnique st cid = Some user"
    and f: "update_first (\<lambda>a. acc_id a = aid \<and> acc_userId a = user_id user)
        (\<lambda>a. a\<lparr>isDefault := True\<rparr>) (accounts (account_clearDefaults (user_id user) st)) = Some (y, as)"
    and st': "st' = (account_clearDefaults (user_id user) st)\<lparr>accounts := as\<rparr>"
    by (auto simp: updateDefaultAccount_def Let_def split: option.splits)
  let ?c = "account_clearDefaults (user_id user) st"
  from update_first_split [OF f] obtain pre x post where
    x: "accounts ?c = pre @ x # post" "acc_userId x = user_id user"
       "as = pre @ x\<lparr>isDefault := True\<rparr> # post"
    by blast
  have la: "length (accounts_of u st') = length (accounts_of u ?c)"
    by (simp add: st' x accounts_of_def)
  have ld: "length (defaults_of u st') =
      length (defaults_of u ?c) + (if u = user_id user \<and> \<not> isDefault x then 1 else 0)"
    by (auto simp: st' x defaults_of_def)
  have zero: "length (defaults_of (user_id user) ?c) = 0"
    by (simp add: length_defaults_clear)
  then have nx: "\<not> isDefault x"
    by (auto simp: defaults_of_def x)
  have pos: "length (accounts_of (user_id user) ?c) \<noteq> 0"
    by (simp add: accounts_of_def x)
  show ?thesis
  proof (cases "u = user_id user")
    case True
    with la ld zero nx pos show ?thesis
      by (simp add: default_singleton_length)
  next
    case False
    with la ld assms(1) show ?thesis
      by (simp add: default_singleton_length length_defaults_clear length_accounts_clear)
  qed
qed


lemma increment_balances_keys:
  assumes "increment_balances cs st = Inr st'" and "\<And>a c. key (a\<lparr>balance := c\<rparr>) = key a"
  shows "map key (accounts st') = map key (accounts st)"
  using assms(1)
proof (induction cs st rule: increment_balances.induct)
  case (1 st)
  then show ?case by simp
next
  case (2 aid c rest st)
  from "2.prems" obtain r a as where i: "increment_of c = Some r"
    and u: "update_first (\<lambda>a. acc_id a = aid) (\<lambda>a. a\<lparr>balance := balance a + r\<rparr>) (accounts st) =
          Some (a, as)"
    and r: "increment_balances rest (st\<lparr>accounts := as\<rparr>) = Inr st'"
    by (auto split: option.splits)
  have "map key as = map key (accounts st)"
    by (rule update_first_keys [OF u]) (rule assms(2))
  with "2.IH" [OF i u refl r] show ?case by simp
qed

lemma default_singleton_keys:
  assumes "map (\<lambda>a. (acc_userId a, isDefault a)) (accounts st') =
           map (\<lambda>a. (acc_userId a, isDefault a)) (accounts st)"
  shows "default_singleton u st' = default_singleton u st"
proof -
  have k: "length (filter (\<lambda>a. Q (acc_userId a, isDefault a)) xs) =
        length (filter Q (map (\<lambda>a. (acc_userId a, isDefault a)) xs))"
    for Q and xs :: "account list"
    by (induction xs) simp_all
  have "length (accounts_of u st') = length (accounts_of u st)"
    using k [of "\<lambda>p. fst p = u" "accounts st'"] k [of "\<lambda>p. fst p = u" "accounts st"]
    by (simp add: accounts_of_def assms)
  moreover have "length (defaults_of u st') = length (defaults_of u st)"
    using k [of "\<lambda>p. fst p = u \<and> snd p" "accounts st'"]
      k [of "\<lambda>p. fst p = u \<and> snd p" "accounts st"]
    by (simp add: defaults_of_def assms)
  ultimately show ?thesis
    by (simp only: default_singleton_length)
qed

lemma default_singleton_step:
  assumes "default_singleton u st" and "succeeded st op \<or> step st op = st"
  shows "default_singleton u (step st op)"
proof (cases "step st op = st")
  case True
  with assms(1) show ?thesis by simp
next
  case False
  with assms(2) have s: "succeeded st op" by simp
  show ?thesis
  proof (cases op)
    case (CreateAccount1 userId decision data)
    with s obtain created where
      "createAccount1 userId decision data st = (Success created, step st op)"
      by (cases "createAccount1 userId decision data st") (auto split: result.splits)
    from createAccount1_Success [OF this] assms(1) show ?thesis
      by (auto simp: default_singleton_after_create)
  next
    case (CreateAccount2 userId decision data)
    with s obtain created where
      "createAccount2 userId decision data st = (Success created, step st op)"
      by (cases "createAccount2 userId decision data st") (auto split: result.splits)
    from createAccount2_Success [OF this] assms(1) show ?thesis
      by (auto simp: default_singleton_after_create)
  next
    case (UpdateDefaultAccount userId aid)
    with s obtain a where
      "updateDefaultAccount userId aid st = (Success a, step st op)"
      by (cases "updateDefaultAccount userId aid st") (auto split: result.splits)
    from default_singleton_updateDefaultAccount [OF assms(1) this] show ?thesis .
  next
    case (BulkDeleteTransactions userId ids)
    with s have "bulkDeleteTransactions userId ids st = (Success (), step st op)"
      by (cases "bulkDeleteTransactions userId ids st") (auto split: result.splits)
    then obtain cs st0 where "increment_balances cs st0 = Inr (step st op)"
      and "accounts st0 = accounts st"
      by (auto simp: bulkDeleteTransactions_def Let_def transaction_deleteMany_def
          split: option.splits if_splits sum.splits)
    from increment_balances_keys [OF this(1), of "\<lambda>a. (acc_userId a, isDefault a)"] this(2)
    have "map (\<lambda>a. (acc_userId a, isDefault a)) (accounts (step st op)) =
          map (\<lambda>a. (acc_userId a, isDefault a)) (accounts st)"
      by simp
    from default_singleton_keys [OF this] assms(1) show ?thesis by simp
  qed
qed

lemma default_singleton_run:
  assumes "default_singleton u st" and "all_atomic st ops"
  shows "default_singleton u (run ops st)"
  using assms
proof (induction ops arbitrary: st)
  case Nil
  then show ?case by (simp add: run_def)
next
  case (Cons op ops)
  from Cons.prems have "default_singleton u (step st op)" "all_atomic (step st op) ops"
    by (simp_all add: default_singleton_step)
  from Cons.IH [OF this] show ?case by (simp add: run_def)
qed

text \<open>
  Claim C2 at an id the caller does not own. Account 3 belongs to Bob and no account
  has id 4. For both ids Alice's call returns a failure, and the store it leaves has
  lost the default flag of Alice's account A: the clearing statement was applied, the
  setting statement threw.
\<close>

theorem C2_failed_switch_clears_default:
  "updateDefaultAccount (Some ''clerk_alice'') 3 ledger_with_bob =
     (Failure record_not_found,
      ledger_with_bob\<lparr>accounts := [account_A\<lparr>isDefault := False\<rparr>, account_B, bob_account]\<rparr>) \<and>
   updateDefaultAccount (Some ''clerk_alice'') 4 ledger_with_bob =
     (Failure record_not_found,
      ledger_with_bob\<lparr>accounts := [account_A\<lparr>isDefault := False\<rparr>, account_B, bob_account]\<rparr>) \<and>
   map isDefault (accounts ledger_with_bob) = [True, False, True] \<and>
   map isDefault (accounts (snd (updateDefaultAccount (Some ''clerk_alice'') 4 ledger_with_bob))) =
     [False, False, True]"
  by (simp add: updateDefaultAccount_def ledger_with_bob_def bob_account_def example_defs db_defs
      Let_def)

text \<open>
  Claim C1 on a sequence of two calls. Alice creates her first account, which becomes
  her default; then \<open>updateDefaultAccount\<close> is called with an id she does not own.
  The call completes with a failure result, and afterwards Alice has one account and
  no default.
\<close>

theorem C1_default_lost:
  "default_singleton (user_id alice) no_accounts \<and>
   default_singleton (user_id alice)
     (run [CreateAccount1 (Some ''clerk_alice'') Allowed (form ''100'' False)] no_accounts) \<and>
   fst (updateDefaultAccount (Some ''clerk_alice'') 7
     (run [CreateAccount1 (Some ''clerk_alice'') Allowed (form ''100'' False)] no_accounts)) =
     Failure record_not_found \<and>
   length (accounts_of (user_id alice)
     (run [CreateAccount1 (Some ''clerk_alice'') Allowed (form ''100'' False),
           UpdateDefaultAccount (Some ''clerk_alice'') 7] no_accounts)) = 1 \<and>
   defaults_of (user_id alice)
     (run [CreateAccount1 (Some ''clerk_alice'') Allowed (form ''100'' False),
           UpdateDefaultAccount (Some ''clerk_alice'') 7] no_accounts) = [] \<and>
   \<not> default_singleton (user_id alice)
     (run [CreateAccount1 (Some ''clerk_alice'') Allowed (form ''100'' False),
           UpdateDefaultAccount (Some ''clerk_alice'') 7] no_accounts)"
  by (simp add: run_def default_singleton_def accounts_of_def defaults_of_def
      createAccount1_def updateDefaultAccount_def example_defs db_defs parse_defs Let_def)

end
